theory Spec2Isabelle
  imports Main
begin

section \<open>Requests, responses and middleware effects\<close>

text \<open>
  The backend is an Express application. A request carries the Authorization header, the
  route parameter \<open>:id\<close>, the \<open>next_followup_date\<close> field of the JSON body and, once
  \<open>authenticate\<close> has run, the decoded identity \<open>req.user\<close>. JavaScript strings are
  modelled as \<open>string\<close>, a list of characters with codes below 256; \<open>null\<close> and
  \<open>undefined\<close> are \<open>None\<close>. A body field that is not a string is turned into one by
  \<open>String(...)\<close> before the handler looks at it, so the field is a string or absent.
\<close>

record user =
  userId :: string
  role :: string
  customerId :: "string option"

record request =
  authorization :: "string option"
  req_user :: "user option"
  params_id :: string
  body_next_followup_date :: "string option"

text \<open>
  \<open>Error_Json s m\<close> is \<open>res.status(s).json({ error: m })\<close>; \<open>Row_Json i v\<close> is
  \<open>res.json(result.rows[0])\<close> for the customer row \<open>i\<close> whose follow-up column is \<open>v\<close>;
  \<open>Unhandled_Error\<close> is the reply of the global error handler (status 500) to an exception
  that escaped a middleware.
\<close>

datatype response =
    Error_Json nat string
  | Row_Json string "string option"
  | Unhandled_Error

text \<open>
  What one middleware call does: the response it sent (if any), whether it called
  \<open>next()\<close>, whether it threw, and the request object as it left it.
\<close>

record effect =
  sent :: "response option"
  next_called :: bool
  threw :: bool
  req_out :: request

definition respond :: "request \<Rightarrow> response \<Rightarrow> effect" where
  "respond req r = \<lparr>sent = Some r, next_called = False, threw = False, req_out = req\<rparr>"

definition call_next :: "request \<Rightarrow> effect" where
  "call_next req = \<lparr>sent = None, next_called = True, threw = False, req_out = req\<rparr>"

definition throw_error :: "request \<Rightarrow> effect" where
  "throw_error req = \<lparr>sent = None, next_called = False, threw = True, req_out = req\<rparr>"

section \<open>Capability guards (auth/middleware.js)\<close>

text \<open>
  Each guard reads \<open>req.user.role\<close>; on a request without \<open>req.user\<close> the property
  access throws a TypeError. Every \<open>res.status(403).json(...)\<close> is returned, so
  \<open>next()\<close> is not reached on that path.
\<close>

definition requireAdmin :: "request \<Rightarrow> effect" where
  "requireAdmin req =
     (case req_user req of
        None \<Rightarrow> throw_error req
      | Some u \<Rightarrow>
          if role u \<noteq> ''admin'' then respond req (Error_Json 403 ''Admin access required'')
          else call_next req)"

definition requireStaffOrAdmin :: "request \<Rightarrow> effect" where
  "requireStaffOrAdmin req =
     (case req_user req of
        None \<Rightarrow> throw_error req
      | Some u \<Rightarrow>
          if role u \<noteq> ''admin'' \<and> role u \<noteq> ''staff''
          then respond req (Error_Json 403 ''Staff or admin access required'')
          else call_next req)"

definition requireCustomerSelf :: "request \<Rightarrow> effect" where
  "requireCustomerSelf req =
     (let customerId' = params_id req in
      case req_user req of
        None \<Rightarrow> throw_error req
      | Some u \<Rightarrow>
          if role u = ''admin'' \<or> role u = ''staff'' then call_next req
          else if role u = ''customer'' \<and> customerId u = Some customerId' then call_next req
          else respond req (Error_Json 403 ''Access denied to this customer''))"

section \<open>Middleware chains\<close>

text \<open>
  Express runs the functions registered for a route in order. A function that does not
  call \<open>next()\<close> ends the chain; one that throws hands over to the global error handler.
  \<open>ran\<close> counts the functions that were invoked, \<open>answer\<close> is the first response sent,
  \<open>reached\<close> is the request handed on past the last function of the list.
\<close>

record chain_result =
  ran :: nat
  answer :: "response option"
  reached :: "request option"

fun run_chain :: "(request \<Rightarrow> effect) list \<Rightarrow> request \<Rightarrow> chain_result" where
  "run_chain [] req = \<lparr>ran = 0, answer = None, reached = Some req\<rparr>"
| "run_chain (g # gs) req =
     (let e = g req in
      if threw e then \<lparr>ran = 1, answer = Some Unhandled_Error, reached = None\<rparr>
      else if next_called e then
        (let r = run_chain gs (req_out e) in
         \<lparr>ran = Suc (ran r),
          answer = (case sent e of Some x \<Rightarrow> Some x | None \<Rightarrow> answer r),
          reached = reached r\<rparr>)
      else \<lparr>ran = 1, answer = sent e, reached = None\<rparr>)"

section \<open>Token codec (auth/tokens.js)\<close>

text \<open>
  \<open>JWT_SECRET\<close> is \<open>process.env.JWT_SECRET\<close>: \<open>None\<close> when the variable is unset.
  \<open>ensureJwtSecret\<close> throws when the value is falsy (unset or the empty string); the
  model returns the secret it checked. The functions \<open>jwt.sign\<close> and \<open>jwt.verify\<close>
  belong to the jsonwebtoken package and are parameters of the model; a failure of
  \<open>jwt.verify\<close> is an exception of that package.
\<close>

datatype jwt_failure = TokenExpired | SignatureMismatch | Malformed

datatype token_error = Secret_Not_Set | Jwt_Failure jwt_failure

definition ACCESS_TOKEN_EXPIRY :: nat where
  "ACCESS_TOKEN_EXPIRY = 7 * 24 * 60 * 60"

definition ensureJwtSecret :: "string option \<Rightarrow> token_error + string" where
  "ensureJwtSecret JWT_SECRET =
     (case JWT_SECRET of
        None \<Rightarrow> Inl Secret_Not_Set
      | Some s \<Rightarrow> if s = [] then Inl Secret_Not_Set else Inr s)"

definition createAccessToken ::
  "(user \<Rightarrow> string \<Rightarrow> nat \<Rightarrow> string) \<Rightarrow> string option \<Rightarrow> user \<Rightarrow> token_error + string" where
  "createAccessToken sign JWT_SECRET payload =
     (case ensureJwtSecret JWT_SECRET of
        Inl e \<Rightarrow> Inl e
      | Inr s \<Rightarrow>
          Inr (sign \<lparr>userId = userId payload, role = role payload,
                     customerId = customerId payload\<rparr> s ACCESS_TOKEN_EXPIRY))"

definition verifyAccessToken ::
  "(string \<Rightarrow> string \<Rightarrow> jwt_failure + user) \<Rightarrow> string option \<Rightarrow> string \<Rightarrow> token_error + user" where
  "verifyAccessToken verify JWT_SECRET token =
     (case ensureJwtSecret JWT_SECRET of
        Inl e \<Rightarrow> Inl e
      | Inr s \<Rightarrow> (case verify token s of Inl f \<Rightarrow> Inl (Jwt_Failure f) | Inr p \<Rightarrow> Inr p))"

subsection \<open>The signing library\<close>

text \<open>
  Modelled from the spec: \<open>jwt.sign\<close> and \<open>jwt.verify\<close> of the jsonwebtoken package,
  which is not among the sources. Following section 4.1 of the specification, a token is
  self-contained: it holds the claim, the absolute expiry (issue time plus time to live,
  in seconds) and the signature, here the secret that signed it. The wire format is left
  open: \<open>print\<close> writes a token as a string and \<open>parse\<close> reads one. Verification
  rejects a string that is no token, then a signature that does not match, then an expiry
  that has elapsed, comparing the current time with the encoded expiry.
\<close>

record jwt =
  jwt_payload :: user
  jwt_exp :: nat
  jwt_signed_with :: string

definition jwt_sign :: "(jwt \<Rightarrow> string) \<Rightarrow> nat \<Rightarrow> user \<Rightarrow> string \<Rightarrow> nat \<Rightarrow> string" where
  "jwt_sign print now payload secret expiresIn =
     print \<lparr>jwt_payload = payload, jwt_exp = now + expiresIn, jwt_signed_with = secret\<rparr>"

definition jwt_verify ::
  "(string \<Rightarrow> jwt option) \<Rightarrow> nat \<Rightarrow> string \<Rightarrow> string \<Rightarrow> jwt_failure + user" where
  "jwt_verify parse now token secret =
     (case parse token of
        None \<Rightarrow> Inl Malformed
      | Some t \<Rightarrow>
          if jwt_signed_with t \<noteq> secret then Inl SignatureMismatch
          else if jwt_exp t \<le> now then Inl TokenExpired
          else Inr (jwt_payload t))"

section \<open>Identity resolver (auth/middleware.js)\<close>

definition startsWith :: "string \<Rightarrow> string \<Rightarrow> bool" where
  "startsWith s p = (take (length p) s = p)"

definition authenticate ::
  "(string \<Rightarrow> string \<Rightarrow> jwt_failure + user) \<Rightarrow> string option \<Rightarrow> request \<Rightarrow> effect" where
  "authenticate verify JWT_SECRET req =
     (case authorization req of
        None \<Rightarrow> respond req (Error_Json 401 ''Missing or invalid authorization header'')
      | Some authHeader \<Rightarrow>
          if authHeader = [] \<or> \<not> startsWith authHeader ''Bearer ''
          then respond req (Error_Json 401 ''Missing or invalid authorization header'')
          else
            (let token = drop 7 authHeader in
             case verifyAccessToken verify JWT_SECRET token of
               Inr payload \<Rightarrow>
                 call_next (req\<lparr>req_user :=
                   Some \<lparr>userId = userId payload, role = role payload,
                         customerId = customerId payload\<rparr>\<rparr>)
             | Inl err \<Rightarrow> respond req (Error_Json 401 ''Invalid or expired token'')))"

section \<open>Strings and dates of the runtime\<close>

text \<open>
  \<open>String.prototype.trim\<close> removes white space and line terminators at both ends. Of
  these, the code units below 256 are tab, line feed, vertical tab, form feed, carriage
  return, space and no-break space.
\<close>

definition is_js_space :: "char \<Rightarrow> bool" where
  "is_js_space c = (of_char c \<in> {9, 10, 11, 12, 13, 32, 160 :: nat})"

definition js_trim :: "string \<Rightarrow> string" where
  "js_trim s = rev (dropWhile is_js_space (rev (dropWhile is_js_space s)))"

definition is_digit :: "char \<Rightarrow> bool" where
  "is_digit c = (c \<in> set ''0123456789'')"

definition digit_val :: "char \<Rightarrow> int" where
  "digit_val c = int (of_char c) - 48"

text \<open>The regular expression \<open>/^\d{4}-\d{2}-\d{2}$/\<close>.\<close>

fun date_shape :: "string \<Rightarrow> bool" where
  "date_shape [y1, y2, y3, y4, s1, m1, m2, s2, d1, d2] =
     (is_digit y1 \<and> is_digit y2 \<and> is_digit y3 \<and> is_digit y4 \<and> s1 = CHR ''-'' \<and>
      is_digit m1 \<and> is_digit m2 \<and> s2 = CHR ''-'' \<and> is_digit d1 \<and> is_digit d2)"
| "date_shape _ = False"

text \<open>
  Day number of a date of the proleptic Gregorian calendar, counted from 1 January 1970,
  and its inverse. A JavaScript time value is the number of milliseconds since that
  day's midnight in UTC.
\<close>

definition days_from_civil :: "int \<Rightarrow> int \<Rightarrow> int \<Rightarrow> int" where
  "days_from_civil y m d =
     (let y' = (if m \<le> 2 then y - 1 else y);
          era = y' div 400;
          yoe = y' - era * 400;
          doy = (153 * (if m > 2 then m - 3 else m + 9) + 2) div 5 + d - 1;
          doe = yoe * 365 + yoe div 4 - yoe div 100 + doy
      in era * 146097 + doe - 719468)"

definition civil_from_days :: "int \<Rightarrow> int \<times> int \<times> int" where
  "civil_from_days z =
     (let z' = z + 719468;
          era = z' div 146097;
          doe = z' - era * 146097;
          yoe = (doe - doe div 1460 + doe div 36524 - doe div 146096) div 365;
          doy = doe - (365 * yoe + yoe div 4 - yoe div 100);
          mp = (5 * doy + 2) div 153;
          d = doy - (153 * mp + 2) div 5 + 1;
          m = (if mp < 10 then mp + 3 else mp - 9);
          y = yoe + era * 400
      in (if m \<le> 2 then y + 1 else y, m, d))"

definition msPerDay :: int where
  "msPerDay = 86400000"

text \<open>
  \<open>new Date(s + 'T00:00:00.000Z')\<close> for a string \<open>s\<close> of the shape above, as V8 (the
  engine of Node.js) reads it: the month must be 1 to 12 and the day 1 to 31, whatever
  the month; a day beyond the end of the month rolls over into the next month. \<open>None\<close> is
  the invalid date, whose \<open>getTime()\<close> is NaN.
\<close>

definition date_fields :: "string \<Rightarrow> int \<times> int \<times> int" where
  "date_fields s =
     (digit_val (s ! 0) * 1000 + digit_val (s ! 1) * 100 + digit_val (s ! 2) * 10
        + digit_val (s ! 3),
      digit_val (s ! 5) * 10 + digit_val (s ! 6),
      digit_val (s ! 8) * 10 + digit_val (s ! 9))"

definition iso_midnight :: "string \<Rightarrow> int option" where
  "iso_midnight s =
     (case date_fields s of
        (y, m, d) \<Rightarrow>
          if 1 \<le> m \<and> m \<le> 12 \<and> 1 \<le> d \<and> d \<le> 31
          then Some (msPerDay * (days_from_civil y m 1 + (d - 1)))
          else None)"

text \<open>
  The runtime environment: the offset of the server's time zone from UTC in minutes
  (local time is UTC plus the offset), the abbreviated month names of the \<open>en-GB\<close>
  locale data, and the result of \<open>new Date(s)\<close> for every other string.
\<close>

record env =
  tz_offset_min :: int
  month_short :: "int \<Rightarrow> string"
  other_date_parse :: "string \<Rightarrow> int option"

definition date_parse :: "env \<Rightarrow> string \<Rightarrow> int option" where
  "date_parse env s =
     (if date_shape (take 10 s) \<and> drop 10 s = ''T00:00:00.000Z''
      then iso_midnight (take 10 s)
      else other_date_parse env s)"

fun string_of_nat :: "nat \<Rightarrow> string" where
  "string_of_nat n =
     (if n < 10 then [''0123456789'' ! n]
      else string_of_nat (n div 10) @ [''0123456789'' ! (n mod 10)])"

declare string_of_nat.simps [simp del]

text \<open>
  \<open>d.toLocaleDateString('en-GB', { day: 'numeric', month: 'short', year: 'numeric' })\<close>:
  no \<open>timeZone\<close> option is given, so the date is that of the server's time zone. The
  year is the year of the era, without padding.
\<close>

definition toLocaleDateString :: "env \<Rightarrow> int \<Rightarrow> string" where
  "toLocaleDateString env t =
     (case civil_from_days ((t + tz_offset_min env * 60000) div msPerDay) of
        (y, m, d) \<Rightarrow>
          string_of_nat (nat d) @ '' '' @ month_short env m @ '' ''
          @ string_of_nat (nat (if y \<le> 0 then 1 - y else y)))"

text \<open>The source's \<open>formatCommentDate\<close>; \<open>None\<close> is \<open>null\<close>.\<close>

definition formatCommentDate :: "env \<Rightarrow> string option \<Rightarrow> string option" where
  "formatCommentDate env dateStr =
     (case dateStr of
        None \<Rightarrow> None
      | Some s \<Rightarrow>
          if s = [] then None
          else
            (case date_parse env (s @ (if length s = 10 then ''T00:00:00.000Z'' else [])) of
               None \<Rightarrow> None
             | Some t \<Rightarrow> Some (toLocaleDateString env t)))"

text \<open>A value inside a template literal: \<open>null\<close> prints as the word null.\<close>

definition js_string :: "string option \<Rightarrow> string" where
  "js_string v = (case v of None \<Rightarrow> ''null'' | Some s \<Rightarrow> s)"

section \<open>The record store\<close>

text \<open>
  The tables the follow-up handlers touch: for every customer id the
  \<open>next_followup_date\<close> column of its row (\<open>None\<close> is SQL NULL), and the rows of
  \<open>customer_comments\<close> (customer id and comment) in insertion order. The other columns
  are never written by these handlers. The column is held as the string that
  \<open>String(prev.rows[0].next_followup_date)\<close> yields, and a value written is read back
  as it was written; a driver that hands the column back in another form is not covered.
  Every \<open>pool.query\<close> is one statement committed on its own; no handler opens a
  transaction. A statement either takes effect or throws and leaves the tables as
  they were; \<open>fails\<close> tells which statements throw.
\<close>

record db =
  customers :: "string \<Rightarrow> string option option"
  customer_comments :: "(string \<times> string) list"

datatype query =
    Select_Followup string
  | Update_Followup "string option" string
  | Insert_Comment string string

definition select_followup :: "db \<Rightarrow> string \<Rightarrow> string option list" where
  "select_followup d i = (case customers d i of None \<Rightarrow> [] | Some c \<Rightarrow> [c])"

definition update_followup :: "db \<Rightarrow> string option \<Rightarrow> string \<Rightarrow> nat \<times> db" where
  "update_followup d v i =
     (case customers d i of
        None \<Rightarrow> (0, d)
      | Some c \<Rightarrow> (1, d\<lparr>customers := (customers d)(i \<mapsto> v)\<rparr>))"

definition insert_comment :: "db \<Rightarrow> string \<Rightarrow> string \<Rightarrow> db" where
  "insert_comment d i text = d\<lparr>customer_comments := customer_comments d @ [(i, text)]\<rparr>"

section \<open>Follow-up handlers (index.js)\<close>

text \<open>
  A handler returns its response, the tables afterwards and the statements it issued,
  in order (a statement that threw included).
\<close>

type_synonym handler_result = "response \<times> db \<times> query list"

text \<open>
  The check at the head of \<open>PUT /customers/:id/followup\<close>: \<open>Some r\<close> is the rejection
  it returns, \<open>None\<close> lets the request through.
\<close>

definition followup_input_check :: "env \<Rightarrow> string option \<Rightarrow> response option" where
  "followup_input_check env next_followup_date =
     (case next_followup_date of
        None \<Rightarrow> None
      | Some raw \<Rightarrow>
          (let dateStr = js_trim raw in
           if \<not> date_shape dateStr
           then Some (Error_Json 400 ''next_followup_date must be YYYY-MM-DD or null'')
           else if date_parse env (dateStr @ ''T00:00:00.000Z'') = None
           then Some (Error_Json 400 ''next_followup_date is not a valid date'')
           else None))"

text \<open>
  \<open>prev.rows[0].next_followup_date ? String(...).slice(0, 10) : null\<close>: a column
  that is NULL or the empty string counts as no date.
\<close>

definition previous_date :: "string option \<Rightarrow> string option" where
  "previous_date cell =
     (case cell of
        None \<Rightarrow> None
      | Some s \<Rightarrow> if s = [] then None else Some (take 10 s))"

text \<open>The comment text chosen once the previous and the new date differ.\<close>

definition followup_comment :: "env \<Rightarrow> string option \<Rightarrow> string option \<Rightarrow> string" where
  "followup_comment env previousDate newDate =
     (if newDate = None \<or> newDate = Some []
      then ''Follow-up cleared.''
      else if previousDate = None \<or> previousDate = Some []
      then ''Follow-up scheduled for '' @ js_string (formatCommentDate env newDate) @ ''.''
      else ''Follow-up date changed from '' @ js_string (formatCommentDate env previousDate)
           @ '' to '' @ js_string (formatCommentDate env newDate) @ ''.'')"

definition put_followup :: "env \<Rightarrow> (query \<Rightarrow> bool) \<Rightarrow> request \<Rightarrow> db \<Rightarrow> handler_result" where
  "put_followup env fails req d =
     (let i = params_id req;
          next_followup_date = body_next_followup_date req
      in
      case followup_input_check env next_followup_date of
        Some rejection \<Rightarrow> (rejection, d, [])
      | None \<Rightarrow>
         (let val = map_option js_trim next_followup_date;
              failure = Error_Json 500 ''Failed to update follow-up date'';
              q1 = Select_Followup i
          in
          if fails q1 then (failure, d, [q1])
          else
            (case select_followup d i of
               [] \<Rightarrow> (Error_Json 404 ''Customer not found'', d, [q1])
             | cell # _ \<Rightarrow>
                (let previousDate = previous_date cell;
                     newDate = val;
                     q2 = Update_Followup val i
                 in
                 if fails q2 then (failure, d, [q1, q2])
                 else
                   (case update_followup d val i of
                      (rowCount, d2) \<Rightarrow>
                        if rowCount = 0 then (Error_Json 404 ''Customer not found'', d2, [q1, q2])
                        else if previousDate \<noteq> newDate then
                          (let commentText = followup_comment env previousDate newDate;
                               q3 = Insert_Comment i commentText
                           in
                           if fails q3 then (failure, d2, [q1, q2, q3])
                           else (Row_Json i val, insert_comment d2 i commentText, [q1, q2, q3]))
                        else (Row_Json i val, d2, [q1, q2]))))))"

definition post_followup_done :: "(query \<Rightarrow> bool) \<Rightarrow> request \<Rightarrow> db \<Rightarrow> handler_result" where
  "post_followup_done fails req d =
     (let i = params_id req;
          failure = Error_Json 500 ''Failed to mark follow-up done'';
          q1 = Update_Followup None i
      in
      if fails q1 then (failure, d, [q1])
      else
        (case update_followup d None i of
           (rowCount, d2) \<Rightarrow>
             if rowCount = 0 then (Error_Json 404 ''Customer not found'', d2, [q1])
             else
               (let q2 = Insert_Comment i ''Follow-up marked as done.'' in
                if fails q2 then (failure, d2, [q1, q2])
                else (Row_Json i None, insert_comment d2 i ''Follow-up marked as done.'',
                      [q1, q2]))))"

text \<open>
  A route: the middleware registered before the handler, then the handler, which runs
  only when control was handed on past the last middleware.
\<close>

definition run_route ::
  "(request \<Rightarrow> effect) list \<Rightarrow> (request \<Rightarrow> db \<Rightarrow> handler_result) \<Rightarrow> request \<Rightarrow> db
   \<Rightarrow> response option \<times> db \<times> query list" where
  "run_route guards handler req d =
     (let c = run_chain guards req in
      case reached c of
        None \<Rightarrow> (answer c, d, [])
      | Some req' \<Rightarrow>
          (case handler req' d of
             (r, d', qs) \<Rightarrow> ((case answer c of Some x \<Rightarrow> Some x | None \<Rightarrow> Some r), d', qs)))"

section \<open>The calendar\<close>

text \<open>
  What the specification calls a real calendar date: a month from 1 to 12 and a day that
  the month has in that year, by the leap-year rule of the Gregorian calendar.
\<close>

definition is_leap :: "int \<Rightarrow> bool" where
  "is_leap y = (y mod 4 = 0 \<and> (y mod 100 \<noteq> 0 \<or> y mod 400 = 0))"

definition days_in_month :: "int \<Rightarrow> int \<Rightarrow> int" where
  "days_in_month y m =
     (if m = 2 then (if is_leap y then 29 else 28)
      else if m = 4 \<or> m = 6 \<or> m = 9 \<or> m = 11 then 30 else 31)"

definition real_date :: "int \<Rightarrow> int \<Rightarrow> int \<Rightarrow> bool" where
  "real_date y m d = (1 \<le> m \<and> m \<le> 12 \<and> 1 \<le> d \<and> d \<le> days_in_month y m)"

section \<open>Sample environments, stores and requests\<close>

text \<open>
  Abbreviated month names of the \<open>en-GB\<close> locale data (the examples below use June
  and July only), a server running in UTC, and a server running five hours west of UTC.
\<close>

definition month_short_en_GB :: "int \<Rightarrow> string" where
  "month_short_en_GB m =
     [''Jan'', ''Feb'', ''Mar'', ''Apr'', ''May'', ''Jun'', ''Jul'', ''Aug'', ''Sept'', ''Oct'',
      ''Nov'', ''Dec''] ! nat (m - 1)"

definition utc_env :: env where
  "utc_env = \<lparr>tz_offset_min = 0, month_short = month_short_en_GB,
              other_date_parse = (\<lambda>s. None)\<rparr>"

definition west_env :: env where
  "west_env = \<lparr>tz_offset_min = - 300, month_short = month_short_en_GB,
               other_date_parse = (\<lambda>s. None)\<rparr>"

definition no_fault :: "query \<Rightarrow> bool" where
  "no_fault q = False"

definition comment_fault :: "query \<Rightarrow> bool" where
  "comment_fault q = (case q of Insert_Comment i text \<Rightarrow> True | _ \<Rightarrow> False)"

definition update_fault :: "query \<Rightarrow> bool" where
  "update_fault q = (case q of Update_Followup v i \<Rightarrow> True | _ \<Rightarrow> False)"

text \<open>
  A store with customer \<open>c1\<close>, who has no follow-up date, and customer \<open>c2\<close>, whose
  follow-up is on 15 June 2026; no comments yet.
\<close>

definition sample_db :: db where
  "sample_db = \<lparr>customers = [''c1'' \<mapsto> None, ''c2'' \<mapsto> Some ''2026-06-15''],
                customer_comments = []\<rparr>"

definition followup_request :: "string \<Rightarrow> string option \<Rightarrow> request" where
  "followup_request i v =
     \<lparr>authorization = None,
      req_user = Some \<lparr>userId = ''u2'', role = ''staff'', customerId = None\<rparr>,
      params_id = i, body_next_followup_date = v\<rparr>"

definition customer_c1 :: user where
  "customer_c1 = \<lparr>userId = ''u3'', role = ''customer'', customerId = Some ''c1''\<rparr>"

text \<open>A verifier that accepts every token as customer \<open>c1\<close>'s, and one that rejects all.\<close>

definition accept_as_c1 :: "string \<Rightarrow> string \<Rightarrow> jwt_failure + user" where
  "accept_as_c1 token secret = Inr customer_c1"

definition reject_with :: "jwt_failure \<Rightarrow> string \<Rightarrow> string \<Rightarrow> jwt_failure + user" where
  "reject_with f token secret = Inl f"

definition bearer_request :: "string option \<Rightarrow> request" where
  "bearer_request h =
     \<lparr>authorization = h, req_user = None, params_id = ''c1'',
      body_next_followup_date = Some ''2026-06-15''\<rparr>"

text \<open>
  A wire format that is enough for one token: the token that secret \<open>k\<close> signs for
  customer \<open>c1\<close> at time 1000 with the seven days' time to live.
\<close>

definition sample_print :: "jwt \<Rightarrow> string" where
  "sample_print t = ''x.y.z''"

definition sample_parse :: "string \<Rightarrow> jwt option" where
  "sample_parse w =
     (if w = ''x.y.z''
      then Some \<lparr>jwt_payload = customer_c1, jwt_exp = 1000 + 604800, jwt_signed_with = ''k''\<rparr>
      else None)"

section \<open>Properties of the guards and of the chain\<close>

lemma guard_deny_stops:
  assumes "g = requireAdmin \<or> g = requireStaffOrAdmin \<or> g = requireCustomerSelf"
      and "sent (g req) = Some r"
  shows "\<not> next_called (g req) \<and> \<not> threw (g req)"
  using assms
  by (auto simp: requireAdmin_def requireStaffOrAdmin_def requireCustomerSelf_def
        respond_def call_next_def throw_error_def Let_def split: option.splits if_splits)

lemma run_chain_append:
  "reached (run_chain pre req) = Some req' \<Longrightarrow>
   run_chain (pre @ gs) req =
     \<lparr>ran = ran (run_chain pre req) + ran (run_chain gs req'),
      answer = (case answer (run_chain pre req) of Some x \<Rightarrow> Some x
                | None \<Rightarrow> answer (run_chain gs req')),
      reached = reached (run_chain gs req')\<rparr>"
proof (induction pre arbitrary: req)
  case Nil
  then show ?case by simp
next
  case (Cons g pre)
  then show ?case
    by (auto simp: Let_def split: if_splits option.splits)
qed

lemma ran_when_reached:
  "reached (run_chain pre req) = Some req' \<Longrightarrow> ran (run_chain pre req) = length pre"
  by (induction pre arbitrary: req) (auto simp: Let_def split: if_splits)

text \<open>
  Claim C2. \<open>requireCustomerSelf\<close> hands control on exactly when the role is admin or
  staff (whatever the target), or the role is customer and \<open>customerId\<close> is the very
  string of the route parameter \<open>:id\<close>; when it hands on it sends nothing, and otherwise
  it answers 403 with the message "Access denied to this customer" (the specification's
  reason \<open>NotSelf\<close>).
\<close>

theorem requireCustomerSelf_self_or_elevated:
  assumes "req_user req = Some u"
  shows "(next_called (requireCustomerSelf req) \<longleftrightarrow>
            role u = ''admin'' \<or> role u = ''staff'' \<or>
            (role u = ''customer'' \<and> customerId u = Some (params_id req))) \<and>
         (next_called (requireCustomerSelf req) \<longrightarrow> requireCustomerSelf req = call_next req) \<and>
         (\<not> next_called (requireCustomerSelf req) \<longrightarrow>
            requireCustomerSelf req =
              respond req (Error_Json 403 ''Access denied to this customer''))"
  using assms
  by (simp add: requireCustomerSelf_def call_next_def respond_def)

text \<open>
  A customer asking for the own record \<open>c1\<close> passes; the same customer asking for \<open>C1\<close>
  (the id in another letter case) is denied; a staff member passes for that id.
\<close>

theorem requireCustomerSelf_self_or_elevated_witness:
  "(let own = \<lparr>authorization = None,
                req_user = Some \<lparr>userId = ''u3'', role = ''customer'', customerId = Some ''c1''\<rparr>,
                params_id = ''c1'', body_next_followup_date = None\<rparr>;
        other = own\<lparr>params_id := ''C1''\<rparr>;
        staff = other\<lparr>req_user := Some \<lparr>userId = ''u2'', role = ''staff'', customerId = None\<rparr>\<rparr>
    in requireCustomerSelf own = call_next own \<and>
       requireCustomerSelf other = respond other (Error_Json 403 ''Access denied to this customer'') \<and>
       requireCustomerSelf staff = call_next staff)"
  using requireCustomerSelf_self_or_elevated
    [of "\<lparr>authorization = None,
          req_user = Some \<lparr>userId = ''u3'', role = ''customer'', customerId = Some ''c1''\<rparr>,
          params_id = ''c1'', body_next_followup_date = None\<rparr>"
        "\<lparr>userId = ''u3'', role = ''customer'', customerId = Some ''c1''\<rparr>"]
     requireCustomerSelf_self_or_elevated
    [of "\<lparr>authorization = None,
          req_user = Some \<lparr>userId = ''u3'', role = ''customer'', customerId = Some ''c1''\<rparr>,
          params_id = ''C1'', body_next_followup_date = None\<rparr>"
        "\<lparr>userId = ''u3'', role = ''customer'', customerId = Some ''c1''\<rparr>"]
     requireCustomerSelf_self_or_elevated
    [of "\<lparr>authorization = None,
          req_user = Some \<lparr>userId = ''u2'', role = ''staff'', customerId = None\<rparr>,
          params_id = ''C1'', body_next_followup_date = None\<rparr>"
        "\<lparr>userId = ''u2'', role = ''staff'', customerId = None\<rparr>"]
  by (simp add: Let_def call_next_def respond_def)

text \<open>
  Claim C8. When one of the three guards is reached in a chain and denies (sends a
  response), it does not call \<open>next()\<close>: the chain ends with the guard's response, no
  function registered after the guard is invoked, and the route's handler does not run
  (the tables are untouched and no statement is issued).
\<close>

theorem denied_guard_short_circuits:
  assumes "g = requireAdmin \<or> g = requireStaffOrAdmin \<or> g = requireCustomerSelf"
      and "reached (run_chain pre req) = Some req'"
      and "answer (run_chain pre req) = None"
      and "sent (g req') = Some r"
  shows "\<not> next_called (g req') \<and>
         run_chain (pre @ g # post) req =
           \<lparr>ran = Suc (length pre), answer = Some r, reached = None\<rparr> \<and>
         run_route (pre @ g # post) handler req d = (Some r, d, [])"
proof -
  have stop: "\<not> next_called (g req')" "\<not> threw (g req')"
    using guard_deny_stops [OF assms(1) assms(4)] by simp_all
  have here: "run_chain (g # post) req' = \<lparr>ran = 1, answer = Some r, reached = None\<rparr>"
    using stop assms(4) by (simp add: Let_def)
  have whole: "run_chain (pre @ g # post) req =
      \<lparr>ran = Suc (length pre), answer = Some r, reached = None\<rparr>"
    using run_chain_append [OF assms(2), of "g # post"] ran_when_reached [OF assms(2)]
      assms(3) here by simp
  show ?thesis
    using stop(1) whole by (simp add: run_route_def)
qed

text \<open>
  On the route \<open>PUT /customers/:id/followup\<close> a customer's request passes
  \<open>authenticate\<close> and is denied by \<open>requireStaffOrAdmin\<close>: the handler does not run.
\<close>

theorem denied_guard_short_circuits_witness:
  "run_route [authenticate accept_as_c1 (Some ''k''), requireStaffOrAdmin]
     (put_followup utc_env no_fault) (bearer_request (Some ''Bearer t'')) sample_db
   = (Some (Error_Json 403 ''Staff or admin access required''), sample_db, [])"
proof -
  let ?req = "bearer_request (Some ''Bearer t'')"
  let ?req' = "?req\<lparr>req_user := Some customer_c1\<rparr>"
  let ?pre = "[authenticate accept_as_c1 (Some ''k'')]"
  have a: "authenticate accept_as_c1 (Some ''k'') ?req = call_next ?req'"
    by (simp add: authenticate_def startsWith_def verifyAccessToken_def ensureJwtSecret_def
          accept_as_c1_def bearer_request_def customer_c1_def)
  have 1: "reached (run_chain ?pre ?req) = Some ?req'"
    by (simp add: a call_next_def Let_def)
  have 2: "answer (run_chain ?pre ?req) = None"
    by (simp add: a call_next_def Let_def)
  have 3: "sent (requireStaffOrAdmin ?req')
             = Some (Error_Json 403 ''Staff or admin access required'')"
    by (simp add: requireStaffOrAdmin_def respond_def customer_c1_def)
  show ?thesis
    using denied_guard_short_circuits
      [of requireStaffOrAdmin ?pre ?req ?req' _ "[]", OF _ 1 2 3]
    by simp
qed

section \<open>Properties of the identity resolver and of the token codec\<close>

text \<open>
  Claim C4. \<open>authenticate\<close> applies its rules in order. A request without an
  Authorization header, or with one that does not start with "Bearer ", is answered 401
  "Missing or invalid authorization header" (\<open>MissingCredential\<close>). With a header
  "Bearer " followed by a token, every failure of \<open>verifyAccessToken\<close>, whatever its
  cause, is answered by the one response 401 "Invalid or expired token"
  (\<open>InvalidOrExpiredCredential\<close>); and a decoded payload is attached as \<open>req.user\<close>
  with its \<open>userId\<close>, \<open>role\<close> and \<open>customerId\<close>, after which \<open>next()\<close> is called
  and nothing is sent.
\<close>

theorem authenticate_rules:
  "(authorization req = None \<or>
      (\<exists>h. authorization req = Some h \<and> \<not> startsWith h ''Bearer '') \<longrightarrow>
      authenticate verify secret req =
        respond req (Error_Json 401 ''Missing or invalid authorization header'')) \<and>
   (authorization req = Some (''Bearer '' @ token) \<longrightarrow>
      (\<forall>e. verifyAccessToken verify secret token = Inl e \<longrightarrow>
         authenticate verify secret req
           = respond req (Error_Json 401 ''Invalid or expired token'')) \<and>
      (\<forall>p. verifyAccessToken verify secret token = Inr p \<longrightarrow>
         authenticate verify secret req =
           call_next (req\<lparr>req_user :=
             Some \<lparr>userId = userId p, role = role p, customerId = customerId p\<rparr>\<rparr>)))"
  by (auto simp: authenticate_def startsWith_def)

text \<open>
  No header and a Basic header are answered alike; an expired and a tampered token are
  answered alike; an accepted token attaches customer \<open>c1\<close>.
\<close>

theorem authenticate_rules_witness:
  "authenticate accept_as_c1 (Some ''k'') (bearer_request None)
     = respond (bearer_request None)
         (Error_Json 401 ''Missing or invalid authorization header'') \<and>
   authenticate accept_as_c1 (Some ''k'') (bearer_request (Some ''Basic abc''))
     = respond (bearer_request (Some ''Basic abc''))
         (Error_Json 401 ''Missing or invalid authorization header'') \<and>
   authenticate (reject_with TokenExpired) (Some ''k'') (bearer_request (Some ''Bearer t''))
     = respond (bearer_request (Some ''Bearer t''))
         (Error_Json 401 ''Invalid or expired token'') \<and>
   authenticate (reject_with SignatureMismatch) (Some ''k'') (bearer_request (Some ''Bearer t''))
     = respond (bearer_request (Some ''Bearer t''))
         (Error_Json 401 ''Invalid or expired token'') \<and>
   authenticate accept_as_c1 (Some ''k'') (bearer_request (Some ''Bearer t''))
     = call_next ((bearer_request (Some ''Bearer t''))\<lparr>req_user := Some customer_c1\<rparr>)"
proof -
  have v1: "verifyAccessToken (reject_with TokenExpired) (Some ''k'') ''t''
              = Inl (Jwt_Failure TokenExpired)"
    by (simp add: verifyAccessToken_def ensureJwtSecret_def reject_with_def)
  have v2: "verifyAccessToken (reject_with SignatureMismatch) (Some ''k'') ''t''
              = Inl (Jwt_Failure SignatureMismatch)"
    by (simp add: verifyAccessToken_def ensureJwtSecret_def reject_with_def)
  have v3: "verifyAccessToken accept_as_c1 (Some ''k'') ''t'' = Inr customer_c1"
    by (simp add: verifyAccessToken_def ensureJwtSecret_def accept_as_c1_def)
  have h: "authorization (bearer_request (Some ''Bearer t'')) = Some (''Bearer '' @ ''t'')"
    by (simp add: bearer_request_def)
  have c: "\<lparr>userId = userId customer_c1, role = role customer_c1,
            customerId = customerId customer_c1\<rparr> = customer_c1"
    by (simp add: customer_c1_def)
  show ?thesis
    using authenticate_rules [of "bearer_request None" accept_as_c1 "Some ''k''" "[]"]
      authenticate_rules [of "bearer_request (Some ''Basic abc'')" accept_as_c1 "Some ''k''" "[]"]
      authenticate_rules [of "bearer_request (Some ''Bearer t'')"
        "reject_with TokenExpired" "Some ''k''" "''t''"]
      authenticate_rules [of "bearer_request (Some ''Bearer t'')"
        "reject_with SignatureMismatch" "Some ''k''" "''t''"]
      authenticate_rules [of "bearer_request (Some ''Bearer t'')"
        accept_as_c1 "Some ''k''" "''t''"]
      v1 v2 v3 h c
    by (simp add: bearer_request_def startsWith_def)
qed

text \<open>
  Claim C9. Without a configured secret both token operations stop with the
  configuration error ("JWT_SECRET environment variable is not set") before the signing
  library is called. With a non-empty secret, issuing goes on to sign with that secret
  and the seven days' expiry, and verifying does not fail with the configuration error.
\<close>

theorem missing_secret_is_configuration_error:
  "createAccessToken sign None payload = Inl Secret_Not_Set \<and>
   verifyAccessToken verify None token = Inl Secret_Not_Set \<and>
   (s \<noteq> [] \<longrightarrow>
      createAccessToken sign (Some s) payload
        = Inr (sign \<lparr>userId = userId payload, role = role payload,
                      customerId = customerId payload\<rparr> s ACCESS_TOKEN_EXPIRY) \<and>
      verifyAccessToken verify (Some s) token \<noteq> Inl Secret_Not_Set)"
  by (auto simp: createAccessToken_def verifyAccessToken_def ensureJwtSecret_def
        split: sum.splits)

theorem missing_secret_is_configuration_error_witness:
  "createAccessToken (jwt_sign sample_print 1000) None customer_c1 = Inl Secret_Not_Set \<and>
   verifyAccessToken accept_as_c1 None ''x.y.z'' = Inl Secret_Not_Set \<and>
   createAccessToken (jwt_sign sample_print 1000) (Some ''k'') customer_c1 = Inr ''x.y.z'' \<and>
   verifyAccessToken accept_as_c1 (Some ''k'') ''x.y.z'' \<noteq> Inl Secret_Not_Set"
  using missing_secret_is_configuration_error
    [of "jwt_sign sample_print 1000" customer_c1 accept_as_c1 "''x.y.z''" "''k''"]
  by (simp add: jwt_sign_def sample_print_def)

text \<open>
  Claim C3, against the signing library as the specification describes it. Let \<open>tok\<close> be
  the token issued at time \<open>t0\<close> for claim \<open>C\<close> with the non-empty secret \<open>s\<close> and time
  to live \<open>ttl\<close>, and let the wire format read it back. \<open>createAccessToken\<close> issues
  such a token with a time to live of seven days. Verified with \<open>s\<close> at a time before
  \<open>t0 + ttl\<close>, the token yields exactly \<open>C\<close>. From \<open>t0 + ttl\<close> on, verification
  fails, and so it does with any other secret \<open>s'\<close>; in both cases \<open>authenticate\<close>
  answers the same 401 "Invalid or expired token".
\<close>

theorem token_round_trip:
  assumes "s \<noteq> []"
      and "tok = jwt_sign print t0 C s ttl"
      and "parse tok = Some \<lparr>jwt_payload = C, jwt_exp = t0 + ttl, jwt_signed_with = s\<rparr>"
      and "authorization req = Some (''Bearer '' @ tok)"
  shows "createAccessToken (jwt_sign print t0) (Some s) C
           = Inr (jwt_sign print t0 C s (7 * 24 * 60 * 60)) \<and>
         (now < t0 + ttl \<longrightarrow>
            verifyAccessToken (jwt_verify parse now) (Some s) tok = Inr C) \<and>
         (t0 + ttl \<le> now \<longrightarrow>
            verifyAccessToken (jwt_verify parse now) (Some s) tok
              = Inl (Jwt_Failure TokenExpired) \<and>
            authenticate (jwt_verify parse now) (Some s) req
              = respond req (Error_Json 401 ''Invalid or expired token'')) \<and>
         (s' \<noteq> [] \<and> s' \<noteq> s \<longrightarrow>
            verifyAccessToken (jwt_verify parse now) (Some s') tok
              = Inl (Jwt_Failure SignatureMismatch) \<and>
            authenticate (jwt_verify parse now) (Some s') req
              = respond req (Error_Json 401 ''Invalid or expired token''))"
proof -
  have issue: "createAccessToken (jwt_sign print t0) (Some s) C
           = Inr (jwt_sign print t0 C s (7 * 24 * 60 * 60))"
    using assms(1)
    by (cases C) (simp add: createAccessToken_def ensureJwtSecret_def ACCESS_TOKEN_EXPIRY_def)
  have v: "jwt_verify parse now tok k =
      (if s \<noteq> k then Inl SignatureMismatch
       else if t0 + ttl \<le> now then Inl TokenExpired else Inr C)" for k
    using assms(3) by (simp add: jwt_verify_def)
  have live: "now < t0 + ttl \<Longrightarrow> verifyAccessToken (jwt_verify parse now) (Some s) tok = Inr C"
    using assms(1) by (simp add: verifyAccessToken_def ensureJwtSecret_def v)
  have dead: "t0 + ttl \<le> now \<Longrightarrow>
      verifyAccessToken (jwt_verify parse now) (Some s) tok = Inl (Jwt_Failure TokenExpired)"
    using assms(1) by (simp add: verifyAccessToken_def ensureJwtSecret_def v)
  have forged: "s' \<noteq> [] \<Longrightarrow> s' \<noteq> s \<Longrightarrow>
      verifyAccessToken (jwt_verify parse now) (Some s') tok
        = Inl (Jwt_Failure SignatureMismatch)"
    by (auto simp add: verifyAccessToken_def ensureJwtSecret_def v)
  have collapse: "verifyAccessToken (jwt_verify parse now) k tok = Inl e \<Longrightarrow>
      authenticate (jwt_verify parse now) k req
        = respond req (Error_Json 401 ''Invalid or expired token'')" for k e
    using assms(4) by (simp add: authenticate_def startsWith_def)
  show ?thesis
    using issue live dead forged collapse by blast
qed

text \<open>
  The token issued at time 1000 for customer \<open>c1\<close> is accepted one second before the
  seven days are over, rejected at the moment they are over, and rejected under another
  secret; the two rejections reach the caller as the same response.
\<close>

theorem token_round_trip_witness:
  "createAccessToken (jwt_sign sample_print 1000) (Some ''k'') customer_c1 = Inr ''x.y.z'' \<and>
   verifyAccessToken (jwt_verify sample_parse (1000 + 604799)) (Some ''k'') ''x.y.z''
     = Inr customer_c1 \<and>
   verifyAccessToken (jwt_verify sample_parse (1000 + 604800)) (Some ''k'') ''x.y.z''
     = Inl (Jwt_Failure TokenExpired) \<and>
   authenticate (jwt_verify sample_parse (1000 + 604800)) (Some ''k'')
       (bearer_request (Some ''Bearer x.y.z''))
     = respond (bearer_request (Some ''Bearer x.y.z''))
         (Error_Json 401 ''Invalid or expired token'') \<and>
   verifyAccessToken (jwt_verify sample_parse 2000) (Some ''other'') ''x.y.z''
     = Inl (Jwt_Failure SignatureMismatch) \<and>
   authenticate (jwt_verify sample_parse 2000) (Some ''other'')
       (bearer_request (Some ''Bearer x.y.z''))
     = respond (bearer_request (Some ''Bearer x.y.z''))
         (Error_Json 401 ''Invalid or expired token'')"
proof -
  have 1: "''k'' \<noteq> []" by simp
  have 2: "''x.y.z'' = jwt_sign sample_print 1000 customer_c1 ''k'' 604800"
    by (simp add: jwt_sign_def sample_print_def)
  have 3: "sample_parse ''x.y.z''
             = Some \<lparr>jwt_payload = customer_c1, jwt_exp = 1000 + 604800,
                     jwt_signed_with = ''k''\<rparr>"
    by (simp add: sample_parse_def)
  have 4: "authorization (bearer_request (Some ''Bearer x.y.z'')) = Some (''Bearer '' @ ''x.y.z'')"
    by (simp add: bearer_request_def)
  note rt = token_round_trip
    [of "''k''" "''x.y.z''" sample_print 1000 customer_c1 604800 sample_parse
        "bearer_request (Some ''Bearer x.y.z'')", OF 1 2 3 4]
  show ?thesis
    using rt [of "1000 + 604799" "''other''"] rt [of "1000 + 604800" "''other''"]
      rt [of 2000 "''other''"]
    by (simp add: jwt_sign_def sample_print_def)
qed

section \<open>Day numbers and calendar dates\<close>

text \<open>
  \<open>civil_from_days\<close> undoes \<open>days_from_civil\<close> on every real calendar date. The
  proof follows the computation: the year within its 400-year era is split into century,
  four-year group and year within the group; the month and the day are recovered from
  the day of the year counted from 1 March.
\<close>

lemma yoe_recovered:
  fixes c q r doy :: int
  assumes b: "0 \<le> c" "c \<le> 3" "0 \<le> q" "q \<le> 24" "0 \<le> r" "r \<le> 3" "0 \<le> doy" "doy \<le> 365"
      and leap: "doy = 365 \<longrightarrow> r = 3 \<and> (q \<noteq> 24 \<or> c = 3)"
      and doe: "doe = 36524 * c + 1461 * q + 365 * r + doy"
  shows "(doe - doe div 1460 + doe div 36524 - doe div 146096) div 365 = 100 * c + 4 * q + r"
proof -
  define last where "last = (if c = 3 \<and> q = 24 \<and> r = 3 \<and> doy = 365 then 1 else 0 :: int)"
  define over where "over = (if 1460 \<le> 24 * c + q + 365 * r + doy then 1 else 0 :: int)"
  have d3: "doe div 146096 = last"
    by (rule int_div_pos_eq [where r = "doe - 146096 * last"])
       (use b leap doe in \<open>auto simp: last_def\<close>)
  have d2: "doe div 36524 = c + last"
    by (rule int_div_pos_eq [where r = "doe - 36524 * (c + last)"])
       (use b leap doe in \<open>auto simp: last_def\<close>)
  have d1: "doe div 1460 = 25 * c + q + over"
    by (rule int_div_pos_eq [where r = "doe - 1460 * (25 * c + q + over)"])
       (use b leap doe in \<open>auto simp: over_def\<close>)
  have "(doe - (25 * c + q + over) + (c + last) - last) div 365 = 100 * c + 4 * q + r"
    by (rule int_div_pos_eq [where r = "doy - over"])
       (use b leap doe in \<open>auto simp: over_def\<close>)
  then show ?thesis
    by (simp add: d1 d2 d3)
qed


lemma md_case:
  fixes d :: int
  assumes "1 \<le> d" "d \<le> len" "doy = off + d - 1" "153 * mp \<le> 5 * off + 2" "5 * (off + len - 1) + 2 < 153 * (mp + 1)"
  shows "(5 * doy + 2) div 153 = mp"
  by (rule int_div_pos_eq [where r = "5 * doy + 2 - 153 * mp"]) (use assms in auto)

lemma month_day_recovered:
  fixes mp d :: int
  assumes "0 \<le> mp" "mp \<le> 11" "1 \<le> d"
      and "d \<le> (if mp = 11 then 29 else if mp = 1 \<or> mp = 3 \<or> mp = 6 \<or> mp = 8 then 30 else 31)"
      and "doy = (153 * mp + 2) div 5 + d - 1"
  shows "(5 * doy + 2) div 153 = mp \<and> doy - (153 * mp + 2) div 5 + 1 = d \<and> 0 \<le> doy \<and> doy \<le> 365
         \<and> (doy = 365 \<longrightarrow> mp = 11 \<and> d = 29)"
proof -
  have "mp = 0 \<or> mp = 1 \<or> mp = 2 \<or> mp = 3 \<or> mp = 4 \<or> mp = 5 \<or> mp = 6 \<or> mp = 7
        \<or> mp = 8 \<or> mp = 9 \<or> mp = 10 \<or> mp = 11"
    using assms(1,2) by arith
  then consider "mp = 0" | "mp = 1" | "mp = 2" | "mp = 3" | "mp = 4" | "mp = 5" | "mp = 6" | "mp = 7"
        | "mp = 8" | "mp = 9" | "mp = 10" | "mp = 11"
    by blast
  then show ?thesis
  proof cases
    case 1 with assms(3,4,5) md_case [of d 31 doy 0 0] show ?thesis by simp
  next
    case 2 with assms(3,4,5) md_case [of d 30 doy 31 1] show ?thesis by simp
  next
    case 3 with assms(3,4,5) md_case [of d 31 doy 61 2] show ?thesis by simp
  next
    case 4 with assms(3,4,5) md_case [of d 30 doy 92 3] show ?thesis by simp
  next
    case 5 with assms(3,4,5) md_case [of d 31 doy 122 4] show ?thesis by simp
  next
    case 6 with assms(3,4,5) md_case [of d 31 doy 153 5] show ?thesis by simp
  next
    case 7 with assms(3,4,5) md_case [of d 30 doy 184 6] show ?thesis by simp
  next
    case 8 with assms(3,4,5) md_case [of d 31 doy 214 7] show ?thesis by simp
  next
    case 9 with assms(3,4,5) md_case [of d 30 doy 245 8] show ?thesis by simp
  next
    case 10 with assms(3,4,5) md_case [of d 31 doy 275 9] show ?thesis by simp
  next
    case 11 with assms(3,4,5) md_case [of d 31 doy 306 10] show ?thesis by simp
  next
    case 12 with assms(3,4,5) md_case [of d 29 doy 337 11] show ?thesis by simp
  qed
qed





lemma year_split:
  fixes yoe :: int
  assumes "0 \<le> yoe" "yoe \<le> 399"
  shows "yoe = 100 * (yoe div 100) + 4 * ((yoe mod 100) div 4) + yoe mod 4"
    and "yoe div 4 = 25 * (yoe div 100) + (yoe mod 100) div 4"
    and "0 \<le> yoe div 100" "yoe div 100 \<le> 3" "0 \<le> (yoe mod 100) div 4"
        "(yoe mod 100) div 4 \<le> 24" "0 \<le> yoe mod 4" "yoe mod 4 \<le> 3"
proof -
  define c where "c = yoe div 100"
  define w where "w = yoe mod 100"
  have yw: "yoe = 100 * c + w" "0 \<le> w" "w < 100"
    by (simp_all add: c_def w_def)
  define q where "q = w div 4"
  define r where "r = w mod 4"
  have wq: "w = 4 * q + r" "0 \<le> r" "r < 4"
    by (simp_all add: q_def r_def)
  have r4: "yoe mod 4 = r"
    by (rule int_mod_pos_eq [where q = "25 * c + q"]) (use yw wq in auto)
  have d4: "yoe div 4 = 25 * c + q"
    by (rule int_div_pos_eq [where r = r]) (use yw wq in auto)
  show "yoe = 100 * (yoe div 100) + 4 * ((yoe mod 100) div 4) + yoe mod 4"
    using yw wq r4 by (simp add: c_def [symmetric] w_def [symmetric] q_def [symmetric])
  show "yoe div 4 = 25 * (yoe div 100) + (yoe mod 100) div 4"
    using d4 by (simp add: c_def w_def q_def)
  show "0 \<le> yoe div 100" "yoe div 100 \<le> 3" using assms by simp_all
  show "0 \<le> (yoe mod 100) div 4" "(yoe mod 100) div 4 \<le> 24" by simp_all
  show "0 \<le> yoe mod 4" "yoe mod 4 \<le> 3" by simp_all
qed





lemma pred_mod:
  fixes y n :: int
  assumes "1 < n" "y mod n = 0"
  shows "(y - 1) mod n = n - 1"
proof -
  have "y = n * (y div n)"
    using assms(2) by (metis add.right_neutral mult_div_mod_eq)
  then have "y - 1 = n * (y div n - 1) + (n - 1)"
    by (simp add: algebra_simps)
  then show ?thesis
    using assms(1) by (intro int_mod_pos_eq [where q = "y div n - 1"]) simp_all
qed

lemma succ_mod:
  fixes x n :: int
  assumes "1 < n" "x mod n = n - 1"
  shows "(x + 1) mod n = 0"
proof -
  have "x = n * (x div n) + (n - 1)"
    using assms(2) by (metis mult_div_mod_eq)
  then have "x + 1 = n * (x div n + 1) + 0"
    by (simp add: algebra_simps)
  then show ?thesis
    using assms(1) by (intro int_mod_pos_eq [where q = "x div n + 1"]) simp_all
qed

lemma leap_year_of_era:
  fixes y :: int
  assumes "is_leap y" and "yoe = (y - 1) mod 400"
  shows "yoe mod 4 = 3 \<and> ((yoe mod 100) div 4 \<noteq> 24 \<or> yoe div 100 = 3)"
proof -
  have m4: "yoe mod 4 = (y - 1) mod 4"
    unfolding assms(2) by (rule mod_mod_cancel) simp
  have m100: "yoe mod 100 = (y - 1) mod 100"
    unfolding assms(2) by (rule mod_mod_cancel) simp
  have y4: "y mod 4 = 0" and y100: "y mod 100 \<noteq> 0 \<or> y mod 400 = 0"
    using assms(1) by (simp_all add: is_leap_def)
  have r: "(y - 1) mod 4 = 3"
    using pred_mod [of 4 y] y4 by simp
  define w where "w = (y - 1) mod 100"
  have w4: "w mod 4 = 3"
  proof -
    have "w mod 4 = (y - 1) mod 4"
      unfolding w_def by (rule mod_mod_cancel) simp
    then show ?thesis using r by simp
  qed
  have "w div 4 \<noteq> 24 \<or> yoe div 100 = 3"
  proof (cases "y mod 400 = 0")
    case True
    then have "(y - 1) mod 400 = 399"
      using pred_mod [of 400 y] by simp
    then show ?thesis
      by (simp add: assms(2))
  next
    case False
    then have "y mod 100 \<noteq> 0"
      using y100 by simp
    then have "w \<noteq> 99"
      using succ_mod [of 100 "y - 1"] by (auto simp: w_def)
    moreover have "w = 4 * (w div 4) + 3"
      using w4 by (metis mult_div_mod_eq)
    ultimately show ?thesis
      by auto
  qed
  then show ?thesis
    using m4 r m100 by (simp add: w_def)
qed


lemma civil_round_trip:
  assumes "real_date y m d"
  shows "civil_from_days (days_from_civil y m d) = (y, m, d)"
proof -
  define y' where "y' = (if m \<le> 2 then y - 1 else y)"
  define era where "era = y' div 400"
  define yoe where "yoe = y' mod 400"
  define mp where "mp = (if m > 2 then m - 3 else m + 9)"
  define doy where "doy = (153 * mp + 2) div 5 + d - 1"
  define doe where "doe = yoe * 365 + yoe div 4 - yoe div 100 + doy"
  have m: "1 \<le> m" "m \<le> 12" "1 \<le> d" "d \<le> days_in_month y m"
    using assms by (simp_all add: real_date_def)
  have yoe_eq: "y' - era * 400 = yoe"
    by (simp add: era_def yoe_def minus_div_mult_eq_mod)
  have split: "y' = era * 400 + yoe"
    by (simp add: era_def yoe_def)
  have fwd: "days_from_civil y m d = era * 146097 + doe - 719468"
  proof -
    have "days_from_civil y m d =
        era * 146097 + ((y' - era * 400) * 365 + (y' - era * 400) div 4
          - (y' - era * 400) div 100 + doy) - 719468"
      unfolding days_from_civil_def Let_def y'_def era_def doy_def mp_def ..
    then show ?thesis
      by (simp only: yoe_eq doe_def)
  qed
  have mpb: "0 \<le> mp" "mp \<le> 11"
    using m(1,2) by (simp_all add: mp_def)
  have dlen: "d \<le> (if mp = 11 then 29
                    else if mp = 1 \<or> mp = 3 \<or> mp = 6 \<or> mp = 8 then 30 else 31)"
    using m by (auto simp: mp_def days_in_month_def split: if_splits)
  note md = month_day_recovered [OF mpb m(3) dlen doy_def]
  have yb: "0 \<le> yoe" "yoe \<le> 399"
    by (simp_all add: yoe_def)
  note ys = year_split [OF yb]
  define c where "c = yoe div 100"
  define q where "q = (yoe mod 100) div 4"
  define r where "r = yoe mod 4"
  have leap: "doy = 365 \<longrightarrow> r = 3 \<and> (q \<noteq> 24 \<or> c = 3)"
  proof
    assume "doy = 365"
    then have "mp = 11" "d = 29"
      using md by simp_all
    then have "m = 2"
      using m(1,2) by (simp add: mp_def split: if_splits)
    then have "is_leap y"
      using m(4) \<open>d = 29\<close> by (simp add: days_in_month_def split: if_splits)
    moreover have "yoe = (y - 1) mod 400"
      using \<open>m = 2\<close> by (simp add: yoe_def y'_def)
    ultimately show "r = 3 \<and> (q \<noteq> 24 \<or> c = 3)"
      using leap_year_of_era [of y yoe] by (simp add: r_def q_def c_def)
  qed
  have doe_eq: "doe = 36524 * c + 1461 * q + 365 * r + doy"
  proof -
    have "yoe * 365 = 36500 * c + 1460 * q + 365 * r"
      using ys(1) unfolding c_def q_def r_def by linarith
    moreover have "yoe div 4 = 25 * c + q" "yoe div 100 = c"
      using ys(2) by (simp_all add: c_def q_def)
    ultimately show ?thesis
      unfolding doe_def by linarith
  qed
  have cb: "0 \<le> c" "c \<le> 3" "0 \<le> q" "q \<le> 24" "0 \<le> r" "r \<le> 3"
    using ys(3-8) by (simp_all add: c_def q_def r_def)
  have db: "0 \<le> doy" "doy \<le> 365"
    using md by simp_all
  have yoe_cqr: "yoe = 100 * c + 4 * q + r"
    using ys(1) by (simp add: c_def q_def r_def)
  have yoe_back: "(doe - doe div 1460 + doe div 36524 - doe div 146096) div 365 = yoe"
    unfolding yoe_cqr
    by (rule yoe_recovered [OF cb db leap doe_eq])
  have doeb: "0 \<le> doe" "doe < 146097"
  proof -
    show "0 \<le> doe"
      unfolding doe_eq using cb db by linarith
    have "\<not> (c = 3 \<and> q = 24 \<and> r = 3) \<or> doy \<le> 365"
      using db by simp
    then show "doe < 146097"
      unfolding doe_eq using cb db by linarith
  qed
  have era_back: "(era * 146097 + doe) div 146097 = era"
    by (rule int_div_pos_eq [where r = doe]) (use doeb in auto)
  have doy_back: "doe - (365 * yoe + yoe div 4 - yoe div 100) = doy"
    unfolding doe_def by linarith
  have m_back: "(if mp < 10 then mp + 3 else mp - 9) = m"
    using m(1,2) by (auto simp: mp_def)
  have y_back: "(if m \<le> 2 then yoe + era * 400 + 1 else yoe + era * 400) = y"
    using split by (auto simp: y'_def split: if_splits)
  have shift: "era * 146097 + doe - 719468 + 719468 = era * 146097 + doe"
    by simp
  have doe_back: "era * 146097 + doe - era * 146097 = doe"
    by simp
  have mp_back: "(5 * doy + 2) div 153 = mp" and d_back: "doy - (153 * mp + 2) div 5 + 1 = d"
    using md by simp_all
  show ?thesis
    by (simp only: fwd civil_from_days_def Let_def shift era_back doe_back yoe_back doy_back
          mp_back d_back m_back y_back)
qed

section \<open>Properties of the follow-up handlers\<close>

lemma date_shape_length: "date_shape s \<Longrightarrow> length s = 10"
  by (erule date_shape.elims) simp_all

lemma date_parse_iso:
  "date_shape s \<Longrightarrow> date_parse env (s @ ''T00:00:00.000Z'') = iso_midnight s"
  by (simp add: date_parse_def date_shape_length)

lemma digit_not_space: "is_digit c \<Longrightarrow> \<not> is_js_space c"
  by (auto simp: is_digit_def is_js_space_def)

lemma date_shape_ends:
  "date_shape s \<Longrightarrow> s \<noteq> [] \<and> \<not> is_js_space (hd s) \<and> \<not> is_js_space (last s)"
  by (erule date_shape.elims) (simp_all add: digit_not_space)

lemma js_trim_padded:
  assumes "s \<noteq> []" "\<not> is_js_space (hd s)" "\<not> is_js_space (last s)"
      and "\<forall>c \<in> set l. is_js_space c" "\<forall>c \<in> set r. is_js_space c"
  shows "js_trim (l @ s @ r) = s"
proof -
  have lead: "dropWhile is_js_space (l @ s @ r) = s @ r"
    using assms(1,2,4) by (cases s) simp_all
  have trail: "dropWhile is_js_space (rev r @ rev s) = rev s"
  proof (cases s rule: rev_cases)
    case Nil
    then show ?thesis using assms(1) by simp
  next
    case (snoc ys y)
    have "dropWhile is_js_space (rev r @ y # rev ys) = dropWhile is_js_space (y # rev ys)"
      using assms(5) by (intro dropWhile_append2) simp
    then show ?thesis using snoc assms(3) by simp
  qed
  show ?thesis
    by (simp add: js_trim_def lead trail)
qed

lemma js_trim_date:
  assumes "date_shape D" "\<forall>c \<in> set l. is_js_space c" "\<forall>c \<in> set r. is_js_space c"
  shows "js_trim (l @ D @ r) = D"
  using js_trim_padded date_shape_ends [OF assms(1)] assms(2,3) by blast

text \<open>
  What \<open>PUT /customers/:id/followup\<close> does for an accepted input and an existing row
  whose read succeeded: the update, then (only when the previous and the new date differ)
  the insert of the comment, each of which may fail on its own.
\<close>

lemma put_followup_on_existing_row:
  assumes "followup_input_check env (body_next_followup_date req) = None"
      and "\<not> fails (Select_Followup (params_id req))"
      and "customers d (params_id req) = Some cell"
  shows "put_followup env fails req d =
     (let i = params_id req;
          v = map_option js_trim (body_next_followup_date req);
          text = followup_comment env (previous_date cell) v;
          d2 = d\<lparr>customers := (customers d)(i \<mapsto> v)\<rparr>;
          failure = Error_Json 500 ''Failed to update follow-up date''
      in
      if fails (Update_Followup v i)
      then (failure, d, [Select_Followup i, Update_Followup v i])
      else if previous_date cell = v
      then (Row_Json i v, d2, [Select_Followup i, Update_Followup v i])
      else if fails (Insert_Comment i text)
      then (failure, d2, [Select_Followup i, Update_Followup v i, Insert_Comment i text])
      else (Row_Json i v, insert_comment d2 i text,
            [Select_Followup i, Update_Followup v i, Insert_Comment i text]))"
  using assms
  by (simp add: put_followup_def Let_def select_followup_def update_followup_def)

text \<open>A rejected input is answered 400 with the tables untouched and no statement issued.\<close>

lemma put_followup_rejects_before_store:
  assumes "followup_input_check env (body_next_followup_date req) = Some r"
  shows "put_followup env fails req d = (r, d, []) \<and> (\<exists>m. r = Error_Json 400 m)"
  using assms
  by (auto simp: put_followup_def followup_input_check_def Let_def
        split: option.splits if_splits)

text \<open>
  The check rejects every string that, trimmed, is not of the shape YYYY-MM-DD, and every
  string of that shape whose month is not 1 to 12 or whose day is not 1 to 31.
\<close>

lemma followup_input_check_shape:
  "\<not> date_shape (js_trim raw) \<Longrightarrow>
   followup_input_check env (Some raw)
     = Some (Error_Json 400 ''next_followup_date must be YYYY-MM-DD or null'')"
  by (simp add: followup_input_check_def)

lemma followup_input_check_fields:
  "date_shape (js_trim raw) \<Longrightarrow> iso_midnight (js_trim raw) = None \<Longrightarrow>
   followup_input_check env (Some raw)
     = Some (Error_Json 400 ''next_followup_date is not a valid date'')"
  by (simp add: followup_input_check_def date_parse_iso)

text \<open>
  Exactly the strings that pass: the day is checked against 31, not against the length
  of the month.
\<close>

lemma followup_input_check_accepts_iff:
  "followup_input_check env (Some raw) = None \<longleftrightarrow>
     date_shape (js_trim raw) \<and>
     (case date_fields (js_trim raw) of
        (y, m, d) \<Rightarrow> 1 \<le> m \<and> m \<le> 12 \<and> 1 \<le> d \<and> d \<le> 31)"
  by (auto simp: followup_input_check_def date_parse_iso iso_midnight_def Let_def
        split: prod.splits if_splits)

lemma malformed_examples_rejected:
  "followup_input_check utc_env (Some ''15-06-2026'')
     = Some (Error_Json 400 ''next_followup_date must be YYYY-MM-DD or null'') \<and>
   followup_input_check utc_env (Some ''2026-13-40'')
     = Some (Error_Json 400 ''next_followup_date is not a valid date'')"
  by code_simp

text \<open>
  The classification of the previous and the new date, and the comment appended, when
  no statement fails: nothing is appended when the two are equal; otherwise one comment,
  "cleared" when the new date is null, "scheduled" when there was no previous date, and
  "changed" otherwise, with both dates put through \<open>formatCommentDate\<close>.
\<close>

lemma followup_comment_table:
  "followup_comment env p None = ''Follow-up cleared.''"
  "D \<noteq> [] \<Longrightarrow> followup_comment env None (Some D)
     = ''Follow-up scheduled for '' @ js_string (formatCommentDate env (Some D)) @ ''.''"
  "D \<noteq> [] \<Longrightarrow> D1 \<noteq> [] \<Longrightarrow> followup_comment env (Some D1) (Some D)
     = ''Follow-up date changed from '' @ js_string (formatCommentDate env (Some D1))
       @ '' to '' @ js_string (formatCommentDate env (Some D)) @ ''.''"
  by (simp_all add: followup_comment_def)

lemma put_followup_appends_iff_changed:
  assumes "followup_input_check env (body_next_followup_date req) = None"
      and "\<forall>q. \<not> fails q"
      and "customers d (params_id req) = Some cell"
  shows "customer_comments (fst (snd (put_followup env fails req d))) =
     (if previous_date cell = map_option js_trim (body_next_followup_date req)
      then customer_comments d
      else customer_comments d @
        [(params_id req,
          followup_comment env (previous_date cell)
            (map_option js_trim (body_next_followup_date req)))])"
  using put_followup_on_existing_row [of env req fails d cell] assms
  by (simp add: Let_def insert_comment_def)

text \<open>The examples of the specification, on a server whose time zone is UTC.\<close>

lemma followup_examples_utc:
  "customer_comments (fst (snd (put_followup utc_env no_fault
      (followup_request ''c1'' None) sample_db))) = []"
  "customer_comments (fst (snd (put_followup utc_env no_fault
      (followup_request ''c1'' (Some ''2026-06-15'')) sample_db)))
     = [(''c1'', ''Follow-up scheduled for 15 Jun 2026.'')]"
  "customer_comments (fst (snd (put_followup utc_env no_fault
      (followup_request ''c2'' None) sample_db)))
     = [(''c2'', ''Follow-up cleared.'')]"
  "customer_comments (fst (snd (put_followup utc_env no_fault
      (followup_request ''c2'' (Some ''2026-07-01'')) sample_db)))
     = [(''c2'', ''Follow-up date changed from 15 Jun 2026 to 1 Jul 2026.'')]"
  "customer_comments (fst (snd (put_followup utc_env no_fault
      (followup_request ''c2'' (Some ''2026-06-15'')) sample_db))) = []"
  by code_simp+

text \<open>
  The day that \<open>formatCommentDate\<close> prints. A date string of the shape YYYY-MM-DD is
  read as midnight UTC of day number \<open>k\<close>; printed in the server's zone it is day
  \<open>k\<close> plus the offset in whole days, rounded down: the same day for an offset from 0
  up to 24 hours, the day before for an offset below 0.
\<close>

lemma local_day_of_utc_midnight:
  "(msPerDay * k + off * 60000) div msPerDay = k + off div 1440"
proof -
  have "(60000 * (1440 * k + off)) div (60000 * 1440) = (1440 * k + off) div (1440 :: int)"
    by (rule div_mult_mult1) simp
  moreover have "(1440 * k + off) div (1440 :: int) = k + off div 1440"
    by simp
  moreover have "msPerDay * k + off * 60000 = 60000 * (1440 * k + off)"
    by (simp add: msPerDay_def)
  moreover have "msPerDay = 60000 * 1440"
    by (simp add: msPerDay_def)
  ultimately show ?thesis
    by metis
qed

lemma formatCommentDate_local_day:
  assumes "date_shape D" and "iso_midnight D = Some (msPerDay * k)"
  shows "formatCommentDate env (Some D) =
           Some (case civil_from_days (k + tz_offset_min env div 1440) of
                   (y, m, d) \<Rightarrow>
                     string_of_nat (nat d) @ '' '' @ month_short env m @ '' ''
                     @ string_of_nat (nat (if y \<le> 0 then 1 - y else y)))"
  using assms date_shape_ends [OF assms(1)]
  by (simp add: formatCommentDate_def date_shape_length date_parse_iso
        toLocaleDateString_def local_day_of_utc_midnight)

text \<open>
  Hence, for every real calendar date from year 1 on: a server whose offset is from 0 up
  to 24 hours prints the day, the month name and the year of the date; a server whose
  offset is below 0 (down to 24 hours) prints the day before.
\<close>

lemma days_from_civil_day:
  "days_from_civil y m 1 + (d - 1) = days_from_civil y m d"
  by (simp add: days_from_civil_def Let_def)

lemma iso_midnight_real_date:
  assumes "date_fields D = (y, m, d)" and "real_date y m d"
  shows "iso_midnight D = Some (msPerDay * days_from_civil y m d)"
proof -
  have "d \<le> 31"
    using assms(2) by (auto simp: real_date_def days_in_month_def split: if_splits)
  then show ?thesis
    using assms by (simp add: iso_midnight_def real_date_def days_from_civil_day)
qed

lemma formatCommentDate_real_date:
  assumes "date_shape D" and "date_fields D = (y, m, d)" and "real_date y m d" and "1 \<le> y"
      and "0 \<le> tz_offset_min env" and "tz_offset_min env < 1440"
  shows "formatCommentDate env (Some D) =
           Some (string_of_nat (nat d) @ '' '' @ month_short env m @ '' ''
                 @ string_of_nat (nat y))"
proof -
  have "tz_offset_min env div 1440 = 0"
    using assms(5,6) by simp
  then show ?thesis
    using formatCommentDate_local_day [OF assms(1) iso_midnight_real_date [OF assms(2,3)], of env]
      civil_round_trip [OF assms(3)] assms(4)
    by simp
qed

lemma formatCommentDate_west_of_utc:
  assumes "date_shape D" and "date_fields D = (y, m, d)" and "real_date y m d" and "1 \<le> y"
      and "2 \<le> d" and "- 1440 \<le> tz_offset_min env" and "tz_offset_min env < 0"
  shows "formatCommentDate env (Some D) =
           Some (string_of_nat (nat (d - 1)) @ '' '' @ month_short env m @ '' ''
                 @ string_of_nat (nat y))"
proof -
  have off: "tz_offset_min env div 1440 = - 1"
    by (rule int_div_pos_eq [where r = "tz_offset_min env + 1440"]) (use assms(6,7) in auto)
  have prev: "real_date y m (d - 1)"
    using assms(3,5) by (simp add: real_date_def)
  have "days_from_civil y m d + - 1 = days_from_civil y m (d - 1)"
    by (simp add: days_from_civil_def Let_def)
  then show ?thesis
    using formatCommentDate_local_day [OF assms(1) iso_midnight_real_date [OF assms(2,3)], of env]
      civil_round_trip [OF prev] assms(4) off
    by simp
qed

text \<open>
  Claim C1 (defect). \<open>formatCommentDate\<close> reads the date as midnight UTC and prints it
  in the server's time zone. For the request that schedules 15 June 2026 for a customer
  without a follow-up date, a server in UTC records "Follow-up scheduled for 15 Jun 2026."
  and a server five hours west of UTC records "Follow-up scheduled for 14 Jun 2026.".
\<close>

theorem followup_narrative_depends_on_time_zone:
  "customer_comments (fst (snd (put_followup utc_env no_fault
      (followup_request ''c1'' (Some ''2026-06-15'')) sample_db)))
     = [(''c1'', ''Follow-up scheduled for 15 Jun 2026.'')] \<and>
   customer_comments (fst (snd (put_followup west_env no_fault
      (followup_request ''c1'' (Some ''2026-06-15'')) sample_db)))
     = [(''c1'', ''Follow-up scheduled for 14 Jun 2026.'')]"
  by code_simp

text \<open>
  Claim C7 (defect). The string 2026-02-30 names no calendar date, yet it passes the
  check: the date object rolls over to 2 March. The handler reads the row and sends the
  update that carries the string to the store. When the store takes the update, the
  request is answered with the row and a comment about 2 March is recorded; when the
  store refuses the update, the request is answered 500. In neither case is it
  answered 400, and in both the store has been read and written to.
\<close>

theorem impossible_date_reaches_store:
  "followup_input_check utc_env (Some ''2026-02-30'') = None \<and>
   fst (put_followup utc_env no_fault (followup_request ''c1'' (Some ''2026-02-30'')) sample_db)
     = Row_Json ''c1'' (Some ''2026-02-30'') \<and>
   snd (snd (put_followup utc_env no_fault
      (followup_request ''c1'' (Some ''2026-02-30'')) sample_db))
     = [Select_Followup ''c1'', Update_Followup (Some ''2026-02-30'') ''c1'',
        Insert_Comment ''c1'' ''Follow-up scheduled for 2 Mar 2026.''] \<and>
   fst (put_followup utc_env update_fault
      (followup_request ''c1'' (Some ''2026-02-30'')) sample_db)
     = Error_Json 500 ''Failed to update follow-up date'' \<and>
   snd (snd (put_followup utc_env update_fault
      (followup_request ''c1'' (Some ''2026-02-30'')) sample_db))
     = [Select_Followup ''c1'', Update_Followup (Some ''2026-02-30'') ''c1'']"
  by code_simp

text \<open>
  Claim C5, as the code has it. The update of the follow-up value and the insert of the
  comment are two statements, each committed on its own. For an accepted input that
  changes the date of an existing row: when the update fails, nothing is written; when
  the update succeeds and the insert fails, the new value stays written with no comment
  beside it; when both succeed, both are written. Either failure is answered 500.
\<close>

theorem followup_update_is_two_statements:
  assumes "followup_input_check env (body_next_followup_date req) = None"
      and "\<not> fails (Select_Followup (params_id req))"
      and "customers d (params_id req) = Some cell"
      and "v = map_option js_trim (body_next_followup_date req)"
      and "previous_date cell \<noteq> v"
      and "i = params_id req"
      and "text = followup_comment env (previous_date cell) v"
  shows "(fails (Update_Followup v i) \<longrightarrow>
            put_followup env fails req d =
              (Error_Json 500 ''Failed to update follow-up date'', d,
               [Select_Followup i, Update_Followup v i])) \<and>
         (\<not> fails (Update_Followup v i) \<and> fails (Insert_Comment i text) \<longrightarrow>
            put_followup env fails req d =
              (Error_Json 500 ''Failed to update follow-up date'',
               d\<lparr>customers := (customers d)(i \<mapsto> v)\<rparr>,
               [Select_Followup i, Update_Followup v i, Insert_Comment i text])) \<and>
         (\<not> fails (Update_Followup v i) \<and> \<not> fails (Insert_Comment i text) \<longrightarrow>
            put_followup env fails req d =
              (Row_Json i v,
               d\<lparr>customers := (customers d)(i \<mapsto> v),
                  customer_comments := customer_comments d @ [(i, text)]\<rparr>,
               [Select_Followup i, Update_Followup v i, Insert_Comment i text]))"
  using put_followup_on_existing_row [of env req fails d cell] assms
  by (simp add: Let_def insert_comment_def)

theorem followup_update_is_two_statements_witness:
  "put_followup utc_env update_fault (followup_request ''c1'' (Some ''2026-06-15'')) sample_db
     = (Error_Json 500 ''Failed to update follow-up date'', sample_db,
        [Select_Followup ''c1'', Update_Followup (Some ''2026-06-15'') ''c1'']) \<and>
   put_followup utc_env comment_fault (followup_request ''c1'' (Some ''2026-06-15'')) sample_db
     = (Error_Json 500 ''Failed to update follow-up date'',
        sample_db\<lparr>customers := (customers sample_db)(''c1'' \<mapsto> Some ''2026-06-15'')\<rparr>,
        [Select_Followup ''c1'', Update_Followup (Some ''2026-06-15'') ''c1'',
         Insert_Comment ''c1'' ''Follow-up scheduled for 15 Jun 2026.'']) \<and>
   put_followup utc_env no_fault (followup_request ''c1'' (Some ''2026-06-15'')) sample_db
     = (Row_Json ''c1'' (Some ''2026-06-15''),
        sample_db\<lparr>customers := (customers sample_db)(''c1'' \<mapsto> Some ''2026-06-15''),
          customer_comments := customer_comments sample_db
            @ [(''c1'', ''Follow-up scheduled for 15 Jun 2026.'')]\<rparr>,
        [Select_Followup ''c1'', Update_Followup (Some ''2026-06-15'') ''c1'',
         Insert_Comment ''c1'' ''Follow-up scheduled for 15 Jun 2026.''])"
proof -
  let ?req = "followup_request ''c1'' (Some ''2026-06-15'')"
  have 1: "followup_input_check utc_env (body_next_followup_date ?req) = None"
    by code_simp
  have 3: "customers sample_db (params_id ?req) = Some None"
    by (simp add: sample_db_def followup_request_def)
  have 4: "Some ''2026-06-15'' = map_option js_trim (body_next_followup_date ?req)"
    by code_simp
  have 5: "previous_date None \<noteq> Some ''2026-06-15''"
    by (simp add: previous_date_def)
  have 6: "''c1'' = params_id ?req"
    by (simp add: followup_request_def)
  have 7: "''Follow-up scheduled for 15 Jun 2026.''
             = followup_comment utc_env (previous_date None) (Some ''2026-06-15'')"
    by code_simp
  have s: "\<not> update_fault (Select_Followup (params_id ?req))"
          "\<not> comment_fault (Select_Followup (params_id ?req))"
          "\<not> no_fault (Select_Followup (params_id ?req))"
    by (simp_all add: update_fault_def comment_fault_def no_fault_def)
  show ?thesis
    using followup_update_is_two_statements [where fails = update_fault, OF 1 s(1) 3 4 5 6 7]
      followup_update_is_two_statements [where fails = comment_fault, OF 1 s(2) 3 4 5 6 7]
      followup_update_is_two_statements [where fails = no_fault, OF 1 s(3) 3 4 5 6 7]
    by (simp add: update_fault_def comment_fault_def no_fault_def)
qed

text \<open>
  The claim as stated fails: when the insert of the comment fails, the request is
  answered 500 and yet customer \<open>c1\<close>, who had no follow-up date, now has one, with no
  comment recorded.
\<close>

theorem followup_update_not_atomic:
  "fst (put_followup utc_env comment_fault
          (followup_request ''c1'' (Some ''2026-06-15'')) sample_db)
     = Error_Json 500 ''Failed to update follow-up date'' \<and>
   customers sample_db ''c1'' = Some None \<and>
   customers (fst (snd (put_followup utc_env comment_fault
          (followup_request ''c1'' (Some ''2026-06-15'')) sample_db))) ''c1''
     = Some (Some ''2026-06-15'') \<and>
   customer_comments (fst (snd (put_followup utc_env comment_fault
          (followup_request ''c1'' (Some ''2026-06-15'')) sample_db))) = []"
  by code_simp

text \<open>
  Claim C6, as the code has it. \<open>POST /customers/:id/followup/done\<close> does not read the
  previous value and compares nothing: for an existing row, whatever its follow-up column
  holds, it sets the column to NULL and appends the one comment "Follow-up marked as
  done." (when neither statement fails). Its statements are the update and the insert.
\<close>

theorem mark_done_always_appends:
  assumes "customers d (params_id req) = Some cell"
      and "i = params_id req"
      and "\<not> fails (Update_Followup None i)"
      and "\<not> fails (Insert_Comment i ''Follow-up marked as done.'')"
  shows "post_followup_done fails req d =
           (Row_Json i None,
            d\<lparr>customers := (customers d)(i \<mapsto> None),
               customer_comments := customer_comments d @ [(i, ''Follow-up marked as done.'')]\<rparr>,
            [Update_Followup None i, Insert_Comment i ''Follow-up marked as done.''])"
  using assms
  by (simp add: post_followup_done_def Let_def update_followup_def insert_comment_def)

theorem mark_done_always_appends_witness:
  "post_followup_done no_fault (followup_request ''c2'' None) sample_db =
     (Row_Json ''c2'' None,
      sample_db\<lparr>customers := (customers sample_db)(''c2'' \<mapsto> None),
        customer_comments := customer_comments sample_db @ [(''c2'', ''Follow-up marked as done.'')]\<rparr>,
      [Update_Followup None ''c2'', Insert_Comment ''c2'' ''Follow-up marked as done.''])"
proof -
  have 1: "customers sample_db (params_id (followup_request ''c2'' None))
             = Some (Some ''2026-06-15'')"
    by (simp add: sample_db_def followup_request_def)
  have 2: "''c2'' = params_id (followup_request ''c2'' None)"
    by (simp add: followup_request_def)
  show ?thesis
    using mark_done_always_appends [where fails = no_fault, OF 1 2]
    by (simp add: no_fault_def)
qed

text \<open>
  The claim as stated fails: customer \<open>c1\<close> has no follow-up date, and marking the
  follow-up done still appends a comment.
\<close>

theorem mark_done_appends_when_already_null:
  "customers sample_db ''c1'' = Some None \<and>
   customer_comments (fst (snd (post_followup_done no_fault
      (followup_request ''c1'' None) sample_db)))
     = [(''c1'', ''Follow-up marked as done.'')]"
  by code_simp

text \<open>
  Claim C10. The handler trims the string before it checks, compares and stores it. For
  a string \<open>D\<close> of the shape YYYY-MM-DD with white space \<open>l\<close> before and \<open>r\<close> after
  it, the check gives the verdict it gives for \<open>D\<close>, the handler does exactly what it
  does for \<open>D\<close>, and when \<open>D\<close> passes the check on its own, so does the padded string.
\<close>

theorem padded_date_is_trimmed:
  assumes "date_shape D"
      and "\<forall>c \<in> set l. is_js_space c"
      and "\<forall>c \<in> set r. is_js_space c"
  shows "followup_input_check env (Some (l @ D @ r)) = followup_input_check env (Some D) \<and>
         put_followup env fails (req\<lparr>body_next_followup_date := Some (l @ D @ r)\<rparr>) d
           = put_followup env fails (req\<lparr>body_next_followup_date := Some D\<rparr>) d \<and>
         (followup_input_check env (Some D) = None \<longrightarrow>
            followup_input_check env (Some (l @ D @ r)) = None)"
proof -
  have a: "js_trim (l @ D @ r) = D"
    using js_trim_date [OF assms] .
  have b: "js_trim D = D"
    using js_trim_date [OF assms(1), of "[]" "[]"] by simp
  show ?thesis
    by (simp add: followup_input_check_def put_followup_def a b Let_def)
qed

theorem padded_date_is_trimmed_witness:
  "followup_input_check utc_env (Some ''  2026-06-15 '') = None \<and>
   put_followup utc_env no_fault (followup_request ''c1'' (Some ''  2026-06-15 '')) sample_db
     = put_followup utc_env no_fault (followup_request ''c1'' (Some ''2026-06-15'')) sample_db"
proof -
  have 1: "date_shape ''2026-06-15''"
    by code_simp
  have 2: "\<forall>c \<in> set ''  ''. is_js_space c"
    by code_simp
  have 3: "\<forall>c \<in> set '' ''. is_js_space c"
    by code_simp
  have 4: "followup_input_check utc_env (Some ''2026-06-15'') = None"
    by code_simp
  show ?thesis
    using padded_date_is_trimmed [OF 1 2 3, of utc_env no_fault
        "followup_request ''c1'' None" sample_db] 4
    by (simp add: followup_request_def)
qed

end
